theory Spec2Isabelle
  imports Complex_Main "HOL-Library.Sublist"
begin

section \<open>Strings\<close>

text \<open>
  A Python \<open>str\<close> is a sequence of Unicode code points, so it is modelled as a list of
  natural numbers. \<open>ustr\<close> turns a literal of the source into that form.

  Assumptions on the environment, used throughout: the strings that reach the program are
  text that the standard streams and the UTF-8 encoding of the output file can represent
  (no lone surrogates), so that \<open>print\<close> and \<open>f.write\<close> themselves never raise.
\<close>

type_synonym pystr = "nat list"

definition ustr :: "string \<Rightarrow> pystr" where
  "ustr s = map of_char s"

text \<open>
  \<open>str.strip()\<close> without argument removes leading and trailing whitespace; CPython's
  table of whitespace code points (\<open>_PyUnicode_IsWhitespace\<close>) is the one below.
\<close>

definition isspace :: "nat \<Rightarrow> bool" where
  "isspace c \<longleftrightarrow>
     (0x09 \<le> c \<and> c \<le> 0x0D) \<or> (0x1C \<le> c \<and> c \<le> 0x20) \<or> c = 0x85 \<or> c = 0xA0 \<or>
     c = 0x1680 \<or> (0x2000 \<le> c \<and> c \<le> 0x200A) \<or> c = 0x2028 \<or> c = 0x2029 \<or>
     c = 0x202F \<or> c = 0x205F \<or> c = 0x3000"

definition strip :: "pystr \<Rightarrow> pystr" where
  "strip s = rev (dropWhile isspace (rev (dropWhile isspace s)))"

definition rstrip_char :: "nat \<Rightarrow> pystr \<Rightarrow> pystr" where
  "rstrip_char c s = rev (dropWhile (\<lambda>x. x = c) (rev s))"

section \<open>JSON values and the Python operations applied to them\<close>

text \<open>
  \<open>r.json()\<close> yields \<open>None\<close>, a \<open>bool\<close>, an \<open>int\<close>, a \<open>float\<close>, a \<open>str\<close>, a \<open>list\<close> or a
  \<open>dict\<close> with string keys. A dictionary is an association list; a parsed dictionary has
  distinct keys. No arithmetic is done on floats: a finite one is the rational its
  decimal text denotes.
\<close>

datatype pyfloat = Finite rat | NaN | PosInf | NegInf

datatype json =
    JNull
  | JBool bool
  | JInt int
  | JFloat pyfloat
  | JStr pystr
  | JArr "json list"
  | JObj "(pystr \<times> json) list"

datatype oserror = ENOENT | EEXIST | ENOTDIR | EISDIR

datatype pyexn =
    KeyError
  | IndexError
  | TypeError
  | AttributeError
  | OSError oserror
  | OtherException pystr

text \<open>\<open>k in v\<close> for a string \<open>k\<close>: key test on a dict, element test on a list, substring
  test on a string, \<open>TypeError\<close> on everything else.\<close>

fun py_contains :: "pystr \<Rightarrow> json \<Rightarrow> pyexn + bool" where
  "py_contains k (JObj kvs) = Inr (map_of kvs k \<noteq> None)"
| "py_contains k (JArr xs) = Inr (JStr k \<in> set xs)"
| "py_contains k (JStr s) = Inr (sublist k s)"
| "py_contains k _ = Inl TypeError"

text \<open>\<open>v[k]\<close> for a string \<open>k\<close>: only a dict accepts a string subscript.\<close>

fun py_getitem :: "json \<Rightarrow> pystr \<Rightarrow> pyexn + json" where
  "py_getitem (JObj kvs) k = (case map_of kvs k of None \<Rightarrow> Inl KeyError | Some v \<Rightarrow> Inr v)"
| "py_getitem _ k = Inl TypeError"

text \<open>\<open>v[0]\<close>: the first element of a list or string (\<open>IndexError\<close> when empty); a dict
  parsed from JSON has only string keys, so \<open>0\<close> is a missing key.\<close>

fun py_getitem0 :: "json \<Rightarrow> pyexn + json" where
  "py_getitem0 (JArr []) = Inl IndexError"
| "py_getitem0 (JArr (x # xs)) = Inr x"
| "py_getitem0 (JStr []) = Inl IndexError"
| "py_getitem0 (JStr (c # cs)) = Inr (JStr [c])"
| "py_getitem0 (JObj kvs) = Inl KeyError"
| "py_getitem0 _ = Inl TypeError"

text \<open>Truth value of a JSON value, as \<open>not v\<close> tests it.\<close>

fun truthy :: "json \<Rightarrow> bool" where
  "truthy JNull = False"
| "truthy (JBool b) = b"
| "truthy (JInt n) = (n \<noteq> 0)"
| "truthy (JFloat f) = (f \<noteq> Finite 0)"
| "truthy (JStr s) = (s \<noteq> [])"
| "truthy (JArr xs) = (xs \<noteq> [])"
| "truthy (JObj kvs) = (kvs \<noteq> [])"

section \<open>Command line\<close>

definition MODEL :: pystr where
  "MODEL = ustr ''google/palm-2-chat-bison''"

definition ENDPOINT :: pystr where
  "ENDPOINT = ustr ''https://openrouter.ai/api/v1/chat/completions''"

definition TONES :: "pystr list" where
  "TONES = [ustr ''upbeat'', ustr ''professional'', ustr ''casual'', ustr ''formal'',
            ustr ''friendly'']"

text \<open>The namespace \<open>parse_args\<close> returns (\<open>output_path\<close> is \<open>args.output\<close>).\<close>

record args =
  event :: pystr
  date :: pystr
  tone :: pystr
  model :: pystr
  output_path :: pystr
  dry_run :: bool
  show_response :: bool

text \<open>
  How \<open>argparse\<close> cuts \<open>sys.argv\<close> into options and values (abbreviated option names,
  \<open>--opt=value\<close>, values that look like options) is the library's business. An invocation
  is the sequence of option occurrences it recognises, in command-line order;
  \<open>Unrecognized\<close> is a token that matches no declared option.
\<close>

datatype arg =
    Event pystr
  | Date pystr
  | Tone pystr
  | Model pystr
  | Output pystr
  | DryRun
  | ShowResponse
  | Version
  | Help
  | Unrecognized pystr

datatype usage = InvalidChoice pystr | MissingRequired | UnrecognizedArguments

datatype parse_stop = StopHelp | StopVersion | StopError usage

text \<open>
  Options are processed from left to right. A \<open>store\<close> option overwrites the value stored
  before; \<open>choices\<close> is checked when \<open>--tone\<close> is consumed; \<open>--version\<close> and \<open>--help\<close> exit as
  soon as they are met. When the command line is exhausted, a missing required option is
  reported, and after that any unrecognised argument. The first component of the
  accumulator is the event name seen so far, the last one says whether an unrecognised
  argument was met.
\<close>

fun parse_known :: "arg list \<Rightarrow> pystr option \<Rightarrow> args \<Rightarrow> bool \<Rightarrow> parse_stop + args" where
  "parse_known [] ev a extras =
     (case ev of
        None \<Rightarrow> Inl (StopError MissingRequired)
      | Some e \<Rightarrow> if extras then Inl (StopError UnrecognizedArguments) else Inr (a\<lparr>event := e\<rparr>))"
| "parse_known (Event v # xs) ev a extras = parse_known xs (Some v) a extras"
| "parse_known (Date v # xs) ev a extras = parse_known xs ev (a\<lparr>date := v\<rparr>) extras"
| "parse_known (Tone v # xs) ev a extras =
     (if v \<in> set TONES then parse_known xs ev (a\<lparr>tone := v\<rparr>) extras
      else Inl (StopError (InvalidChoice v)))"
| "parse_known (Model v # xs) ev a extras = parse_known xs ev (a\<lparr>model := v\<rparr>) extras"
| "parse_known (Output v # xs) ev a extras = parse_known xs ev (a\<lparr>output_path := v\<rparr>) extras"
| "parse_known (DryRun # xs) ev a extras = parse_known xs ev (a\<lparr>dry_run := True\<rparr>) extras"
| "parse_known (ShowResponse # xs) ev a extras =
     parse_known xs ev (a\<lparr>show_response := True\<rparr>) extras"
| "parse_known (Version # xs) ev a extras = Inl StopVersion"
| "parse_known (Help # xs) ev a extras = Inl StopHelp"
| "parse_known (Unrecognized v # xs) ev a extras = parse_known xs ev a True"

text \<open>The defaults of the declared options; \<open>today\<close> is
  \<open>datetime.now().strftime("%Y-%m-%d")\<close>, read from the clock when the parser is built.\<close>

definition defaults :: "pystr \<Rightarrow> args" where
  "defaults today =
     \<lparr>event = [], date = today, tone = ustr ''upbeat'', model = MODEL,
      output_path = ustr ''out/campaign.md'', dry_run = False, show_response = False\<rparr>"

definition parse_args :: "pystr \<Rightarrow> arg list \<Rightarrow> parse_stop + args" where
  "parse_args today argv = parse_known argv None (defaults today) False"

section \<open>The prompt\<close>

definition build_prompt :: "args \<Rightarrow> pystr" where
  "build_prompt a =
     ustr ''Write five fundraising emails and four social captions for the '' @ event a @
     ustr '' on '' @ date a @ ustr '' in a '' @ tone a @ ustr '' tone.''"

section \<open>The file system\<close>

text \<open>
  What \<open>os.path.dirname\<close>, \<open>os.makedirs\<close> and \<open>open\<close> do is modelled on a POSIX file
  system without symbolic links, where permissions and free space never stand in the way.
  A location is the list of names leading to it from the root; the root is a directory.
  One simplification: a trailing slash or a trailing \<open>.\<close> after the name of a regular file
  resolves to the file, where POSIX reports \<open>ENOTDIR\<close>. The program cannot reach that
  case with an effect: the directory name of such an output path is the file itself, on
  which \<open>os.makedirs\<close> fails.
\<close>

datatype node = Dir | File pystr

record filesys =
  nodes :: "pystr list \<rightharpoonup> node"
  cwd :: "pystr list"

definition sep :: nat where
  "sep = 47"

definition curdir :: pystr where
  "curdir = ustr ''.''"

definition pardir :: pystr where
  "pardir = ustr ''..''"

definition node_at :: "filesys \<Rightarrow> pystr list \<Rightarrow> node option" where
  "node_at fs loc = (if loc = [] then Some Dir else nodes fs loc)"

text \<open>\<open>p.split('/')\<close>.\<close>

fun components :: "pystr \<Rightarrow> pystr list" where
  "components [] = [[]]"
| "components (c # cs) =
     (if c = sep then [] # components cs
      else (case components cs of [] \<Rightarrow> [[c]] | x # xs \<Rightarrow> (c # x) # xs))"

text \<open>
  Path resolution: empty components and \<open>.\<close> stay where they are; any other component is
  looked up in the current location, which must be an existing directory. The location
  reached by the last component need not exist.
\<close>

fun walk :: "filesys \<Rightarrow> pystr list \<Rightarrow> pystr list \<Rightarrow> oserror + pystr list" where
  "walk fs cur [] = Inr cur"
| "walk fs cur (c # cs) =
     (if c = [] \<or> c = curdir then walk fs cur cs
      else (case node_at fs cur of
              None \<Rightarrow> Inl ENOENT
            | Some (File t) \<Rightarrow> Inl ENOTDIR
            | Some Dir \<Rightarrow> walk fs (if c = pardir then butlast cur else cur @ [c]) cs))"

definition resolve :: "filesys \<Rightarrow> pystr \<Rightarrow> oserror + pystr list" where
  "resolve fs p =
     (if p = [] then Inl ENOENT
      else walk fs (if hd p = sep then [] else cwd fs) (components p))"

definition path_exists :: "filesys \<Rightarrow> pystr \<Rightarrow> bool" where
  "path_exists fs p =
     (case resolve fs p of Inl e \<Rightarrow> False | Inr loc \<Rightarrow> node_at fs loc \<noteq> None)"

definition path_isdir :: "filesys \<Rightarrow> pystr \<Rightarrow> bool" where
  "path_isdir fs p =
     (case resolve fs p of Inl e \<Rightarrow> False | Inr loc \<Rightarrow> node_at fs loc = Some Dir)"

definition mkdir :: "pystr \<Rightarrow> filesys \<Rightarrow> oserror + filesys" where
  "mkdir p fs =
     (case resolve fs p of
        Inl e \<Rightarrow> Inl e
      | Inr loc \<Rightarrow>
          (case node_at fs loc of
             None \<Rightarrow> Inr (fs\<lparr>nodes := (nodes fs)(loc \<mapsto> Dir)\<rparr>)
           | Some n \<Rightarrow> Inl EEXIST))"

text \<open>\<open>open(p, "w")\<close> followed by \<open>f.write(s)\<close> and the close at the end of the \<open>with\<close>
  block: the file is created or truncated and holds \<open>s\<close>.\<close>

definition open_write :: "pystr \<Rightarrow> pystr \<Rightarrow> filesys \<Rightarrow> oserror + filesys" where
  "open_write p s fs =
     (case resolve fs p of
        Inl e \<Rightarrow> Inl e
      | Inr loc \<Rightarrow>
          (case node_at fs loc of
             Some Dir \<Rightarrow> Inl EISDIR
           | Some (File t) \<Rightarrow> Inr (fs\<lparr>nodes := (nodes fs)(loc \<mapsto> File s)\<rparr>)
           | None \<Rightarrow> Inr (fs\<lparr>nodes := (nodes fs)(loc \<mapsto> File s)\<rparr>)))"

definition read_file :: "filesys \<Rightarrow> pystr \<Rightarrow> pystr option" where
  "read_file fs p =
     (case resolve fs p of
        Inl e \<Rightarrow> None
      | Inr loc \<Rightarrow> (case node_at fs loc of Some (File t) \<Rightarrow> Some t | Some Dir \<Rightarrow> None | None \<Rightarrow> None))"

text \<open>
  \<open>posixpath.split\<close>: the tail is what follows the last slash, the head what precedes it,
  without its trailing slashes unless it consists of slashes only. \<open>posixpath.dirname\<close>
  computes the same head.
\<close>

definition path_head :: "pystr \<Rightarrow> pystr" where
  "path_head p =
     (let head = rev (dropWhile (\<lambda>c. c \<noteq> sep) (rev p))
      in if head \<noteq> [] \<and> head \<noteq> replicate (length head) sep then rstrip_char sep head
         else head)"

definition path_tail :: "pystr \<Rightarrow> pystr" where
  "path_tail p = rev (takeWhile (\<lambda>c. c \<noteq> sep) (rev p))"

definition path_split :: "pystr \<Rightarrow> pystr \<times> pystr" where
  "path_split p = (path_head p, path_tail p)"

definition dirname :: "pystr \<Rightarrow> pystr" where
  "dirname p = path_head p"

text \<open>
  \<open>os.makedirs(name, exist_ok=True)\<close>, after CPython's \<open>os.py\<close>. \<open>makedirs_split\<close> is its
  first three lines: split the name, and split the head again when the tail is empty.
  \<open>mkdir_exist_ok\<close> is its last statement: \<open>mkdir\<close>, whose \<open>OSError\<close> is swallowed when
  the name is a directory by then. A failed call may have created some of the ancestors,
  so the file system is returned in both cases.
\<close>

definition makedirs_split :: "pystr \<Rightarrow> pystr \<times> pystr" where
  "makedirs_split name =
     (if path_tail name = [] then path_split (path_head name) else path_split name)"

definition mkdir_exist_ok :: "pystr \<Rightarrow> filesys \<Rightarrow> oserror option \<times> filesys" where
  "mkdir_exist_ok name fs =
     (case mkdir name fs of
        Inr fs' \<Rightarrow> (None, fs')
      | Inl e \<Rightarrow> if path_isdir fs name then (None, fs) else (Some e, fs))"

lemma length_path_head: "length (path_head p) + length (path_tail p) \<le> length p"
proof -
  let ?h = "rev (dropWhile (\<lambda>c. c \<noteq> sep) (rev p))"
  have "length (takeWhile (\<lambda>c. c \<noteq> sep) (rev p)) + length (dropWhile (\<lambda>c. c \<noteq> sep) (rev p))
          = length (rev p)"
    by (simp flip: length_append)
  then have total: "length ?h + length (path_tail p) = length p"
    by (simp add: path_tail_def)
  have "length (rstrip_char sep ?h) \<le> length ?h"
    by (simp add: rstrip_char_def length_dropWhile_le)
  then have "length (path_head p) \<le> length ?h"
    by (simp add: path_head_def Let_def)
  with total show ?thesis by linarith
qed

lemma makedirs_split_shorter:
  assumes "snd (makedirs_split name) \<noteq> []"
  shows "length (fst (makedirs_split name)) < length name"
proof (cases "path_tail name = []")
  case True
  have "length (path_head (path_head name)) + length (path_tail (path_head name))
          \<le> length (path_head name)"
    by (rule length_path_head)
  moreover have "length (path_head name) \<le> length name"
    using length_path_head [of name] by linarith
  moreover have "0 < length (path_tail (path_head name))"
    using assms True by (simp add: makedirs_split_def path_split_def)
  ultimately have "length (path_head (path_head name)) < length name"
    by linarith
  then show ?thesis
    using True by (simp add: makedirs_split_def path_split_def)
next
  case False
  then have "0 < length (path_tail name)"
    by simp
  then have "length (path_head name) < length name"
    using length_path_head [of name] by linarith
  then show ?thesis
    using False by (simp add: makedirs_split_def path_split_def)
qed

function makedirs :: "pystr \<Rightarrow> filesys \<Rightarrow> oserror option \<times> filesys" where
  "makedirs name fs =
     (if fst (makedirs_split name) \<noteq> [] \<and> snd (makedirs_split name) \<noteq> [] \<and>
         \<not> path_exists fs (fst (makedirs_split name))
      then (case makedirs (fst (makedirs_split name)) fs of
              (Some e, fs1) \<Rightarrow>
                if e = EEXIST
                then (if snd (makedirs_split name) = curdir then (None, fs1)
                      else mkdir_exist_ok name fs1)
                else (Some e, fs1)
            | (None, fs1) \<Rightarrow>
                if snd (makedirs_split name) = curdir then (None, fs1)
                else mkdir_exist_ok name fs1)
      else mkdir_exist_ok name fs)"
  by pat_completeness auto
termination
  by (relation "measure (\<lambda>(name, fs). length name)") (auto simp: makedirs_split_shorter)

declare makedirs.simps [simp del]

section \<open>The process and its surroundings\<close>

record http_request =
  url :: pystr
  headers :: "(pystr \<times> pystr) list"
  json_body :: json
  timeout :: nat

text \<open>
  What \<open>r.json()\<close> does: it returns the parsed body, or it raises. On a body that is not
  JSON, \<open>requests\<close> raises its own \<open>JSONDecodeError\<close>. That one is a
  \<open>json.JSONDecodeError\<close>, caught by the handler next to the call, unless \<open>simplejson\<close> is
  installed: then it is a \<open>RequestException\<close> only. Anything else the decoder raises (a
  \<open>ValueError\<close> on an integer literal beyond the digit limit, a \<open>RecursionError\<close>) is an
  ordinary exception.
\<close>

datatype json_result =
    Json json
  | JSONDecodeError
  | JsonRaisesRequestException pystr
  | JsonRaises pyexn

text \<open>A response as the program reads it: \<open>parsed\<close> is the outcome of \<open>r.json()\<close>.\<close>

record http_response =
  status_code :: int
  resp_headers :: "(pystr \<times> pystr) list"
  body_text :: pystr
  parsed :: json_result

text \<open>What \<open>requests.post\<close> does: it returns a response, raises a
  \<open>RequestException\<close> (connection error, timeout), or raises something else.\<close>

datatype post_result =
    Response http_response
  | RaisesRequestException pystr
  | RaisesOther pyexn

text \<open>
  Every \<open>print\<close> to standard error is an event that carries the values interpolated into
  its message, so that no number or JSON formatting has to be modelled. The events of
  \<open>chat_completion\<close>, with the fixed part of their messages:
  \<^item> \<open>ExitMessage\<close>: the message given to \<open>sys.exit\<close>, which prints it;
  \<^item> \<open>Sending\<close>: \<^verbatim>\<open>Sending request to OpenRouter API...\<close>;
  \<^item> \<open>UsingModel\<close>: \<^verbatim>\<open>Using model:\<close>; \<open>RequestPayload\<close>: \<^verbatim>\<open>Request payload:\<close>;
  \<^item> \<open>StatusCode\<close>: \<^verbatim>\<open>Status code:\<close>; \<open>ResponseHeaders\<close>: \<^verbatim>\<open>Response headers:\<close>;
  \<^item> \<open>FailedDecode\<close>: \<^verbatim>\<open>Failed to decode JSON. Raw response:\<close>;
  \<^item> \<open>ApiError\<close>: \<^verbatim>\<open>API Error:\<close>; \<open>ErrorResponse\<close>: \<^verbatim>\<open>Error response:\<close>;
  \<^item> \<open>RequestCompleted\<close>: \<^verbatim>\<open>Request completed in\<close> (the elapsed time is left out);
  \<^item> \<open>FullResponse\<close>: \<^verbatim>\<open>Full response:\<close>;
  \<^item> \<open>FailedExtract\<close>: \<^verbatim>\<open>Failed to extract content from response:\<close>;
  \<^item> \<open>ResponseStructure\<close>: \<^verbatim>\<open>Response structure:\<close>;
  \<^item> \<open>FailedConnect\<close>: \<^verbatim>\<open>Error: Failed to connect to OpenRouter API:\<close>;
  \<^item> \<open>ExceptionDetails\<close>: \<^verbatim>\<open>Exception details:\<close>;
  \<^item> \<open>UnexpectedError\<close>: \<^verbatim>\<open>Unexpected error:\<close>; \<open>ResponseText\<close>: \<^verbatim>\<open>Response text:\<close>.

  Those of \<open>main\<close>: \<open>Generating\<close> is \<^verbatim>\<open>Generating content for\<close> and \<open>EmptyResponse\<close> is
  \<^verbatim>\<open>Error: Received empty response from API\<close>. \<open>UsageError\<close> is the usage message of
  \<open>argparse\<close>, and \<open>Traceback\<close> the report of the interpreter on an exception nobody caught.
\<close>

datatype diag =
    ExitMessage pystr
  | UsageError usage
  | Sending
  | UsingModel pystr
  | RequestPayload json
  | StatusCode int
  | ResponseHeaders "(pystr \<times> pystr) list"
  | FailedDecode pystr
  | ApiError json
  | ErrorResponse pystr
  | RequestCompleted
  | FullResponse json
  | FailedExtract pyexn
  | ResponseStructure json
  | FailedConnect pystr
  | ExceptionDetails pystr
  | UnexpectedError pyexn
  | ResponseText pystr
  | Generating pystr
  | EmptyResponse
  | Traceback pyexn

datatype out_event = Print pystr | HelpMessage | VersionMessage

text \<open>
  The state a run reads and changes: the environment variables, the date of the clock, the
  behaviour of the network, the file system, the requests sent so far and what was written
  to the two streams.
\<close>

record world =
  environ :: "pystr \<rightharpoonup> pystr"
  today :: pystr
  network :: "http_request \<Rightarrow> post_result"
  fs :: filesys
  posts :: "http_request list"
  stdout :: "out_event list"
  stderr :: "diag list"

text \<open>How a run ends: \<open>main\<close> returns, \<open>sys.exit\<close> is called, or an exception nobody
  catches ends the interpreter with a traceback and exit code 1.\<close>

datatype status = Returned | SysExit nat | Uncaught pyexn

fun exit_code :: "status \<Rightarrow> nat" where
  "exit_code Returned = 0"
| "exit_code (SysExit n) = n"
| "exit_code (Uncaught e) = 1"

definition eprint :: "diag \<Rightarrow> world \<Rightarrow> world" where
  "eprint d w = w\<lparr>stderr := stderr w @ [d]\<rparr>"

definition oprint :: "out_event \<Rightarrow> world \<Rightarrow> world" where
  "oprint x w = w\<lparr>stdout := stdout w @ [x]\<rparr>"

section \<open>The completion request\<close>

definition payload :: "pystr \<Rightarrow> pystr \<Rightarrow> json" where
  "payload prompt mdl =
     JObj [(ustr ''model'', JStr mdl),
           (ustr ''messages'',
              JArr [JObj [(ustr ''role'', JStr (ustr ''user'')), (ustr ''content'', JStr prompt)]]),
           (ustr ''max_tokens'', JInt 800),
           (ustr ''temperature'', JFloat (Finite (7 / 10)))]"

definition request_headers :: "pystr \<Rightarrow> (pystr \<times> pystr) list" where
  "request_headers key =
     [(ustr ''Authorization'', ustr ''Bearer '' @ key),
      (ustr ''Content-Type'', ustr ''application/json''),
      (ustr ''HTTP-Referer'', ustr ''https://github.com/raybo/nyla-sprint-99thDragon''),
      (ustr ''X-Title'', ustr ''Fundraising Email Generator'')]"

definition request :: "pystr \<Rightarrow> pystr \<Rightarrow> pystr \<Rightarrow> http_request" where
  "request key prompt mdl =
     \<lparr>url = ENDPOINT, headers = request_headers key, json_body = payload prompt mdl,
      timeout = 60\<rparr>"

text \<open>\<open>response_json["choices"][0]["message"]["content"]\<close>.\<close>

definition extract_content :: "json \<Rightarrow> pyexn + json" where
  "extract_content j =
     (case py_getitem j (ustr ''choices'') of
        Inl e \<Rightarrow> Inl e
      | Inr choices \<Rightarrow>
          (case py_getitem0 choices of
             Inl e \<Rightarrow> Inl e
           | Inr choice \<Rightarrow>
               (case py_getitem choice (ustr ''message'') of
                  Inl e \<Rightarrow> Inl e
                | Inr message \<Rightarrow> py_getitem message (ustr ''content''))))"

text \<open>\<open>response_json['error']['message']\<close>.\<close>

definition error_message :: "json \<Rightarrow> pyexn + json" where
  "error_message j =
     (case py_getitem j (ustr ''error'') of
        Inl e \<Rightarrow> Inl e
      | Inr err \<Rightarrow> py_getitem err (ustr ''message''))"

text \<open>The handler \<open>except Exception\<close>, reached with \<open>r\<close> bound.\<close>

definition unexpected :: "pyexn \<Rightarrow> http_response \<Rightarrow> world \<Rightarrow> (status + json) \<times> world" where
  "unexpected e r w =
     (Inl (SysExit 1), eprint (ResponseText (body_text r)) (eprint (UnexpectedError e) w))"

text \<open>The handler \<open>except requests.exceptions.RequestException\<close>.\<close>

definition request_failed :: "pystr \<Rightarrow> world \<Rightarrow> (status + json) \<times> world" where
  "request_failed e w =
     (Inl (SysExit 1), eprint (ExceptionDetails e) (eprint (FailedConnect e) w))"

text \<open>
  The part of \<open>chat_completion\<close> that follows \<open>requests.post\<close>. What \<open>r.json()\<close> raises
  other than \<open>json.JSONDecodeError\<close> reaches the outer handlers. A \<open>TypeError\<close> raised by
  one of the subscripts is not caught by the inner \<open>except (KeyError, IndexError)\<close> and
  reaches \<open>except Exception\<close>; \<open>SystemExit\<close> is not an \<open>Exception\<close> and passes through.
\<close>

definition handle_response :: "http_response \<Rightarrow> world \<Rightarrow> (status + json) \<times> world" where
  "handle_response r w =
     (let w1 = eprint (ResponseHeaders (resp_headers r)) (eprint (StatusCode (status_code r)) w)
      in case parsed r of
           JSONDecodeError \<Rightarrow> (Inl (SysExit 1), eprint (FailedDecode (body_text r)) w1)
         | JsonRaisesRequestException e \<Rightarrow> request_failed e w1
         | JsonRaises e \<Rightarrow> unexpected e r w1
         | Json j \<Rightarrow>
             (case py_contains (ustr ''error'') j of
                Inl e \<Rightarrow> unexpected e r w1
              | Inr has_error \<Rightarrow>
                  if has_error
                  then (case error_message j of
                          Inl e \<Rightarrow> unexpected e r w1
                        | Inr m \<Rightarrow> (Inl (SysExit 1), eprint (ApiError m) w1))
                  else if status_code r \<noteq> 200
                  then (Inl (SysExit 1), eprint (ErrorResponse (body_text r)) w1)
                  else (let w2 = eprint (FullResponse j) (eprint RequestCompleted w1)
                        in case extract_content j of
                             Inr content \<Rightarrow> (Inr content, w2)
                           | Inl e \<Rightarrow>
                               if e = KeyError \<or> e = IndexError
                               then (Inl (SysExit 1),
                                     eprint (ResponseStructure j) (eprint (FailedExtract e) w2))
                               else unexpected e r w2)))"

definition API_KEY :: pystr where
  "API_KEY = ustr ''OPENROUTER_API_KEY''"

definition missing_key :: "world \<Rightarrow> (status + json) \<times> world" where
  "missing_key w =
     (Inl (SysExit 1),
      eprint (ExitMessage (ustr ''Error: OPENROUTER_API_KEY environment variable is not set'')) w)"

definition chat_completion :: "pystr \<Rightarrow> pystr \<Rightarrow> world \<Rightarrow> (status + json) \<times> world" where
  "chat_completion prompt mdl w =
     (case environ w API_KEY of
        None \<Rightarrow> missing_key w
      | Some key \<Rightarrow>
          if key = [] then missing_key w
          else (let w1 = eprint (RequestPayload (payload prompt mdl))
                           (eprint (UsingModel mdl) (eprint Sending w));
                    w2 = w1\<lparr>posts := posts w1 @ [request key prompt mdl]\<rparr>
                in case network w (request key prompt mdl) of
                     Response r \<Rightarrow> handle_response r w2
                   | RaisesRequestException e \<Rightarrow> request_failed e w2
                   | RaisesOther e \<Rightarrow> (Inl (SysExit 1), eprint (UnexpectedError e) w2)))"

section \<open>The program\<close>

definition separator :: pystr where
  "separator = concat (replicate 50 (ustr ''-''))"

definition empty_response :: "world \<Rightarrow> status \<times> world" where
  "empty_response w = (SysExit 1, eprint EmptyResponse w)"

definition uncaught :: "pyexn \<Rightarrow> world \<Rightarrow> status \<times> world" where
  "uncaught e w = (Uncaught e, eprint (Traceback e) w)"

text \<open>The last part of \<open>main\<close>: create the directory, write the file, report.\<close>

definition save_output :: "args \<Rightarrow> pystr \<Rightarrow> world \<Rightarrow> status \<times> world" where
  "save_output a response w =
     (case makedirs (dirname (output_path a)) (fs w) of
        (Some e, fs1) \<Rightarrow> uncaught (OSError e) (w\<lparr>fs := fs1\<rparr>)
      | (None, fs1) \<Rightarrow>
          (case open_write (output_path a) response fs1 of
             Inl e \<Rightarrow> uncaught (OSError e) (w\<lparr>fs := fs1\<rparr>)
           | Inr fs2 \<Rightarrow>
               (let w1 = oprint (Print (10 # ustr ''Content saved to: '' @ output_path a))
                           (w\<lparr>fs := fs2\<rparr>)
                in if show_response a
                   then (Returned,
                         oprint (Print separator) (oprint (Print response)
                           (oprint (Print separator)
                              (oprint (Print (10 # ustr ''Generated Content:'')) w1))))
                   else (Returned, w1))))"

definition main :: "arg list \<Rightarrow> world \<Rightarrow> status \<times> world" where
  "main argv w =
     (case parse_args (today w) argv of
        Inl StopHelp \<Rightarrow> (SysExit 0, oprint HelpMessage w)
      | Inl StopVersion \<Rightarrow> (SysExit 0, oprint VersionMessage w)
      | Inl (StopError u) \<Rightarrow> (SysExit 2, eprint (UsageError u) w)
      | Inr a \<Rightarrow>
          if dry_run a
          then (Returned,
                oprint (Print separator) (oprint (Print (build_prompt a))
                  (oprint (Print separator)
                     (oprint (Print (10 # ustr ''Generated Prompt:'')) w))))
          else (case chat_completion (build_prompt a) (model a)
                       (eprint (Generating (event a)) w) of
                  (Inl st, w1) \<Rightarrow> (st, w1)
                | (Inr response, w1) \<Rightarrow>
                    if \<not> truthy response then empty_response w1
                    else (case response of
                            JStr s \<Rightarrow>
                              if strip s = [] then empty_response w1 else save_output a s w1
                          | JNull \<Rightarrow> uncaught AttributeError w1
                          | JBool b \<Rightarrow> uncaught AttributeError w1
                          | JInt n \<Rightarrow> uncaught AttributeError w1
                          | JFloat f \<Rightarrow> uncaught AttributeError w1
                          | JArr xs \<Rightarrow> uncaught AttributeError w1
                          | JObj kvs \<Rightarrow> uncaught AttributeError w1)))"

section \<open>Sample runs\<close>

text \<open>Concrete inputs on which the theorems below are instantiated.\<close>

definition gala :: args where
  "gala =
     \<lparr>event = ustr ''Annual Gala'', date = ustr ''2024-03-15'', tone = ustr ''formal'',
      model = MODEL, output_path = ustr ''out/campaign.md'', dry_run = False,
      show_response = False\<rparr>"

definition gala_argv :: "arg list" where
  "gala_argv = [Event (ustr ''Annual Gala''), Date (ustr ''2024-03-15''), Tone (ustr ''formal'')]"

definition sample_fs :: filesys where
  "sample_fs = \<lparr>nodes = [[ustr ''work''] \<mapsto> Dir], cwd = [ustr ''work'']\<rparr>"

definition sample_world :: "(pystr \<rightharpoonup> pystr) \<Rightarrow> post_result \<Rightarrow> world" where
  "sample_world env res =
     \<lparr>environ = env, today = ustr ''2024-01-01'', network = (\<lambda>req. res), fs = sample_fs,
      posts = [], stdout = [], stderr = []\<rparr>"

definition hello_body :: json where
  "hello_body =
     JObj [(ustr ''choices'',
            JArr [JObj [(ustr ''message'', JObj [(ustr ''content'', JStr (ustr ''Hello''))])]])]"

definition bad_key_body :: json where
  "bad_key_body =
     JObj [(ustr ''error'', JObj [(ustr ''message'', JStr (ustr ''bad key''))]),
           (ustr ''choices'',
            JArr [JObj [(ustr ''message'', JObj [(ustr ''content'', JStr (ustr ''Hello''))])]])]"

definition reply :: "int \<Rightarrow> json \<Rightarrow> http_response" where
  "reply code j = \<lparr>status_code = code, resp_headers = [], body_text = ustr ''(body)'', parsed = Json j\<rparr>"

definition with_key :: "pystr \<rightharpoonup> pystr" where
  "with_key = [API_KEY \<mapsto> ustr ''sk-test'']"

definition blank_body :: json where
  "blank_body =
     JObj [(ustr ''choices'',
            JArr [JObj [(ustr ''message'', JObj [(ustr ''content'', JStr (ustr ''   ''))])]])]"

definition hello_fs :: filesys where
  "hello_fs =
     \<lparr>nodes = [[ustr ''work''] \<mapsto> Dir, [ustr ''work'', ustr ''out''] \<mapsto> Dir,
               [ustr ''work'', ustr ''out'', ustr ''campaign.md''] \<mapsto> File (ustr ''Hello'')],
      cwd = [ustr ''work'']\<rparr>"

definition bare_argv :: "arg list" where
  "bare_argv = [Event (ustr ''Annual Gala''), Output (ustr ''campaign.md'')]"


text \<open>A file or directory name of one component: not empty, without slash, and neither
  \<open>.\<close> nor \<open>..\<close>.\<close>

definition plain_name :: "pystr \<Rightarrow> bool" where
  "plain_name x \<longleftrightarrow> x \<noteq> [] \<and> sep \<notin> set x \<and> x \<noteq> curdir \<and> x \<noteq> pardir"

section \<open>Basic facts\<close>

subsection \<open>Strings\<close>

lemma ustr_simps: "ustr [] = []" "ustr (c # cs) = of_char c # ustr cs"
  by (simp_all add: ustr_def)

lemma ustr_eq_iff [simp]: "ustr a = ustr b \<longleftrightarrow> a = b"
  by (simp add: ustr_def inj_on_def)

lemma ustr_eq_Nil [simp]: "ustr s = [] \<longleftrightarrow> s = []" "[] = ustr s \<longleftrightarrow> s = []"
  by (auto simp add: ustr_def)

lemma ustr_append: "ustr a @ ustr b = ustr (a @ b)" "ustr a @ ustr b @ s = ustr (a @ b) @ s"
  by (simp_all add: ustr_def)

lemma separator_eq: "separator = ustr ''--------------------------------------------------''"
  unfolding separator_def by code_simp

lemma strip_whitespace: "list_all isspace s \<Longrightarrow> strip s = []"
proof -
  assume "list_all isspace s"
  then have "dropWhile isspace s = []"
    by (simp add: list_all_iff)
  then show ?thesis
    by (simp only: strip_def rev.simps dropWhile.simps)
qed

lemma strip_empty_iff: "strip s = [] \<longleftrightarrow> list_all isspace s"
proof
  assume "strip s = []"
  then have "dropWhile isspace (rev (dropWhile isspace s)) = []"
    by (simp add: strip_def)
  then have all: "\<forall>c\<in>set (dropWhile isspace s). isspace c"
    by simp
  have "dropWhile isspace s = []"
  proof (rule ccontr)
    assume ne: "dropWhile isspace s \<noteq> []"
    then have "\<not> isspace (hd (dropWhile isspace s))"
      by (rule hd_dropWhile)
    moreover have "hd (dropWhile isspace s) \<in> set (dropWhile isspace s)"
      using ne by simp
    ultimately show False
      using all by blast
  qed
  then show "list_all isspace s"
    by (simp add: list_all_iff)
next
  assume "list_all isspace s"
  then show "strip s = []"
    by (rule strip_whitespace)
qed

lemma isspace_blank: "list_all isspace (ustr ''   '')"
  by (simp add: ustr_simps isspace_def)

lemma strip_hello: "strip (ustr ''Hello'') = ustr ''Hello''"
  by (simp add: strip_def ustr_simps isspace_def)

subsection \<open>What a step leaves unchanged\<close>

lemma eprint_simps [simp]:
  "fs (eprint d w) = fs w" "posts (eprint d w) = posts w" "stdout (eprint d w) = stdout w"
  "environ (eprint d w) = environ w" "network (eprint d w) = network w"
  "today (eprint d w) = today w" "stderr (eprint d w) = stderr w @ [d]"
  by (simp_all add: eprint_def)

lemma oprint_simps [simp]:
  "fs (oprint x w) = fs w" "posts (oprint x w) = posts w" "stderr (oprint x w) = stderr w"
  "environ (oprint x w) = environ w" "network (oprint x w) = network w"
  "today (oprint x w) = today w" "stdout (oprint x w) = stdout w @ [x]"
  by (simp_all add: oprint_def)

lemma empty_response_simps [simp]:
  "fst (empty_response w) = SysExit 1" "posts (snd (empty_response w)) = posts w"
  "fs (snd (empty_response w)) = fs w" "stdout (snd (empty_response w)) = stdout w"
  "stderr (snd (empty_response w)) = stderr w @ [EmptyResponse]"
  by (simp_all add: empty_response_def)

lemma uncaught_simps [simp]:
  "fst (uncaught e w) = Uncaught e" "posts (snd (uncaught e w)) = posts w"
  "fs (snd (uncaught e w)) = fs w" "stdout (snd (uncaught e w)) = stdout w"
  "stderr (snd (uncaught e w)) = stderr w @ [Traceback e]"
  by (simp_all add: uncaught_def)

lemma handle_response_frame:
  "fs (snd (handle_response r w)) = fs w \<and> posts (snd (handle_response r w)) = posts w \<and>
   stdout (snd (handle_response r w)) = stdout w"
  by (simp add: handle_response_def unexpected_def request_failed_def Let_def
      split: json_result.split sum.split)

lemma chat_completion_frame:
  "fs (snd (chat_completion p m w)) = fs w \<and> stdout (snd (chat_completion p m w)) = stdout w"
  by (simp add: chat_completion_def missing_key_def request_failed_def Let_def
      handle_response_frame split: option.split post_result.split)

lemma chat_completion_posts:
  "posts (snd (chat_completion p m w)) =
     (case environ w API_KEY of
        None \<Rightarrow> posts w
      | Some key \<Rightarrow> if key = [] then posts w else posts w @ [request key p m])"
  by (simp add: chat_completion_def missing_key_def request_failed_def Let_def
      handle_response_frame split: option.split post_result.split)

lemma save_output_posts: "posts (snd (save_output a s w)) = posts w"
  by (simp add: save_output_def Let_def split: prod.split option.split sum.split)

lemma main_posts:
  "posts (snd (main argv w)) =
     (case parse_args (today w) argv of
        Inl stop \<Rightarrow> posts w
      | Inr a \<Rightarrow>
          if dry_run a then posts w
          else posts (snd (chat_completion (build_prompt a) (model a)
                 (eprint (Generating (event a)) w))))"
  by (simp add: main_def save_output_posts
      split: sum.split parse_stop.split prod.split json.split)

lemma handle_response_stderr:
  "\<exists>ds. stderr (snd (handle_response r w)) = stderr w @ ds \<and> EmptyResponse \<notin> set ds"
  by (simp add: handle_response_def unexpected_def request_failed_def Let_def
      split: json_result.split sum.split)

lemma chat_completion_stderr:
  "\<exists>ds. stderr (snd (chat_completion p m w)) = stderr w @ ds \<and> EmptyResponse \<notin> set ds"
  by (simp add: chat_completion_def missing_key_def handle_response_def unexpected_def
      request_failed_def Let_def
      split: option.split post_result.split json_result.split sum.split)

subsection \<open>The argument parser\<close>











subsection \<open>Paths and the file system\<close>

lemma node_at_update:
  "node_at (f\<lparr>nodes := (nodes f)(loc \<mapsto> n)\<rparr>) l =
     (if l = [] then Some Dir else if l = loc then Some n else node_at f l)"
  by (simp add: node_at_def)

lemma node_at_nodes_update:
  "node_at (f\<lparr>nodes := m\<rparr>) l = (if l = [] then Some Dir else m l)"
  by (simp add: node_at_def)

lemma walk_mono:
  assumes "\<And>l. node_at f l = Some Dir \<Longrightarrow> node_at g l = Some Dir"
    and "walk f cur cs = Inr loc"
  shows "walk g cur cs = Inr loc"
  using assms(2)
proof (induction cs arbitrary: cur)
  case Nil
  then show ?case by simp
next
  case (Cons c cs)
  show ?case
  proof (cases "c = [] \<or> c = curdir")
    case True
    then show ?thesis
      using Cons by simp
  next
    case False
    then have d: "node_at f cur = Some Dir"
      using Cons.prems by (simp split: option.splits node.splits)
    then have step: "walk f (if c = pardir then butlast cur else cur @ [c]) cs = Inr loc"
      using Cons.prems False by simp
    have "node_at g cur = Some Dir"
      using d by (rule assms(1))
    then show ?thesis
      using False Cons.IH [OF step] by simp
  qed
qed

lemma walk_after_write:
  assumes "walk f cur cs = Inr loc" and "node_at f loc \<noteq> Some Dir"
  shows "walk (f\<lparr>nodes := (nodes f)(loc \<mapsto> File s)\<rparr>) cur cs = Inr loc"
proof (rule walk_mono [OF _ assms(1)])
  fix l
  assume "node_at f l = Some Dir"
  then show "node_at (f\<lparr>nodes := (nodes f)(loc \<mapsto> File s)\<rparr>) l = Some Dir"
    using assms(2) by (auto simp add: node_at_update)
qed

lemma read_after_write:
  assumes "open_write p s f = Inr g"
  shows "read_file g p = Some s"
proof -
  from assms obtain loc where r: "resolve f p = Inr loc"
    by (auto simp add: open_write_def split: sum.splits)
  from assms r have nd: "node_at f loc \<noteq> Some Dir"
    and g: "g = f\<lparr>nodes := (nodes f)(loc \<mapsto> File s)\<rparr>"
    by (auto simp add: open_write_def split: option.splits node.splits)
  have ne: "loc \<noteq> []"
    using nd by (auto simp add: node_at_def)
  have "resolve g p = Inr loc"
    using r walk_after_write [OF _ nd, of _ _ s]
    by (auto simp add: resolve_def g split: if_splits)
  then show ?thesis
    using ne by (simp add: read_file_def g node_at_update)
qed

lemma components_no_sep: "sep \<notin> set x \<Longrightarrow> components x = [x]"
  by (induction x) auto

lemma components_append: "sep \<notin> set d \<Longrightarrow> components (d @ sep # n) = d # components n"
  by (induction d) auto

lemma path_tail_no_sep: "sep \<notin> set x \<Longrightarrow> path_tail x = x"
proof -
  assume "sep \<notin> set x"
  then have "takeWhile (\<lambda>c. c \<noteq> sep) (rev x) = rev x"
    by (intro takeWhile_eq_all_conv [THEN iffD2]) auto
  then show ?thesis
    by (simp only: path_tail_def rev_rev_ident)
qed

lemma dirname_no_sep: "sep \<notin> set p \<Longrightarrow> dirname p = []"
proof -
  assume "sep \<notin> set p"
  then have "dropWhile (\<lambda>c. c \<noteq> sep) (rev p) = []"
    by auto
  then show ?thesis
    by (simp only: dirname_def path_head_def Let_def rev.simps) simp
qed

lemma dirname_two:
  assumes "d \<noteq> []" and "sep \<notin> set d" and "sep \<notin> set n"
  shows "dirname (d @ sep # n) = d"
proof -
  have "dropWhile (\<lambda>c. c \<noteq> sep) (rev n) = []"
    using assms(3) by auto
  then have "dropWhile (\<lambda>c. c \<noteq> sep) (rev n @ sep # rev d) = sep # rev d"
    by (simp only: dropWhile_append3 [of "\<lambda>c. c \<noteq> sep" sep, simplified] append_Nil)
  then have h: "rev (dropWhile (\<lambda>c. c \<noteq> sep) (rev (d @ sep # n))) = d @ [sep]"
    by simp
  have "hd d \<noteq> sep"
    using assms(1,2) by (metis hd_in_set)
  moreover have "hd d \<in> set (d @ [sep])"
    using assms(1) by simp
  ultimately have ne: "d @ [sep] \<noteq> replicate (length (d @ [sep])) sep"
    by (metis in_set_replicate)
  have "last d \<noteq> sep"
    using assms(1,2) by (metis last_in_set)
  then have "rev d \<noteq> []" "hd (rev d) \<noteq> sep"
    using assms(1) by (simp_all add: hd_rev)
  then have "dropWhile (\<lambda>x. x = sep) (rev d) = rev d"
    by (cases "rev d") auto
  then have rs: "rstrip_char sep (d @ [sep]) = d"
    by (simp add: rstrip_char_def)
  have "path_head (d @ sep # n) = rstrip_char sep (d @ [sep])"
    unfolding path_head_def Let_def h using ne by simp
  then show ?thesis
    by (simp only: dirname_def rs)
qed

lemma makedirs_empty: "makedirs [] f = (Some ENOENT, f)"
  by (simp add: makedirs.simps makedirs_split_def path_split_def path_head_def path_tail_def
      mkdir_exist_ok_def mkdir_def resolve_def path_isdir_def)

lemma makedirs_no_sep: "sep \<notin> set d \<Longrightarrow> makedirs d f = mkdir_exist_ok d f"
proof -
  assume a: "sep \<notin> set d"
  then have "path_head d = []"
    using dirname_no_sep by (simp add: dirname_def)
  then have "fst (makedirs_split d) = []"
    by (simp add: makedirs_split_def path_split_def path_head_def)
  then show ?thesis
    by (subst makedirs.simps) simp
qed

lemma resolve_plain:
  assumes "plain_name d" and "node_at f (cwd f) = Some Dir"
  shows "resolve f d = Inr (cwd f @ [d])"
proof -
  have "hd d \<noteq> sep"
    using assms(1) unfolding plain_name_def by (metis hd_in_set)
  then show ?thesis
    using assms by (simp add: resolve_def plain_name_def components_no_sep)
qed

lemma resolve_plain_two:
  assumes "plain_name d" and "plain_name n" and "node_at f (cwd f) = Some Dir"
    and "node_at f (cwd f @ [d]) = Some Dir"
  shows "resolve f (d @ sep # n) = Inr (cwd f @ [d, n])"
proof -
  have "d \<noteq> []"
    using assms(1) by (simp add: plain_name_def)
  moreover have "hd d \<noteq> sep"
    using assms(1) unfolding plain_name_def by (metis hd_in_set)
  ultimately have "hd (d @ sep # n) \<noteq> sep"
    by simp
  then show ?thesis
    using assms by (simp add: resolve_def plain_name_def components_append components_no_sep)
qed

lemma save_output_bare_filename:
  assumes "sep \<notin> set (output_path a)"
  shows "save_output a s w = uncaught (OSError ENOENT) w"
  using assms by (simp add: save_output_def dirname_no_sep makedirs_empty)

text \<open>
  Where the output path has a directory component the directory is created: for a path
  \<open>d/n\<close> of two plain names, relative to an existing working directory in which \<open>d\<close> does
  not exist, \<open>save_output\<close> creates \<open>d\<close> and writes the file.
\<close>

lemma save_output_creates_parent:
  assumes "output_path a = d @ sep # n" and "plain_name d" and "plain_name n"
    and "node_at (fs w) (cwd (fs w)) = Some Dir"
    and "node_at (fs w) (cwd (fs w) @ [d]) = None"
    and "node_at (fs w) (cwd (fs w) @ [d, n]) = None"
  shows "fst (save_output a s w) = Returned \<and>
         node_at (fs (snd (save_output a s w))) (cwd (fs w) @ [d]) = Some Dir \<and>
         read_file (fs (snd (save_output a s w))) (output_path a) = Some s"
proof -
  let ?f = "fs w"
  let ?f1 = "?f\<lparr>nodes := (nodes ?f)(cwd ?f @ [d] \<mapsto> Dir)\<rparr>"
  let ?f2 = "?f1\<lparr>nodes := (nodes ?f1)(cwd ?f @ [d, n] \<mapsto> File s)\<rparr>"
  have dn: "dirname (output_path a) = d"
    using assms(1-3) by (simp add: dirname_two plain_name_def)
  have "mkdir d ?f = Inr ?f1"
    using assms(2,4,5) by (simp add: mkdir_def resolve_plain)
  then have md: "makedirs d ?f = (None, ?f1)"
    using assms(2) by (simp add: makedirs_no_sep plain_name_def mkdir_exist_ok_def)
  have c1: "node_at ?f1 (cwd ?f1) = Some Dir" "node_at ?f1 (cwd ?f1 @ [d]) = Some Dir"
    "node_at ?f1 (cwd ?f @ [d, n]) = None"
    using assms(4,6) by (auto simp add: node_at_nodes_update node_at_def split: if_splits)
  have "resolve ?f1 (d @ sep # n) = Inr (cwd ?f1 @ [d, n])"
    using assms(2,3) c1(1,2) by (rule resolve_plain_two)
  then have ow: "open_write (output_path a) s ?f1 = Inr ?f2"
    using c1(3) by (simp add: open_write_def assms(1))
  have "fst (save_output a s w) = Returned \<and> fs (snd (save_output a s w)) = ?f2"
    by (simp add: save_output_def dn md ow Let_def)
  moreover have "read_file ?f2 (output_path a) = Some s"
    using ow by (rule read_after_write)
  moreover have "node_at ?f2 (cwd ?f @ [d]) = Some Dir"
    by (simp add: node_at_nodes_update)
  ultimately show ?thesis
    by simp
qed

subsection \<open>The sample runs\<close>

lemma sample_world_simps [simp]:
  "environ (sample_world env res) = env" "today (sample_world env res) = ustr ''2024-01-01''"
  "network (sample_world env res) = (\<lambda>req. res)" "fs (sample_world env res) = sample_fs"
  "posts (sample_world env res) = []" "stdout (sample_world env res) = []"
  "stderr (sample_world env res) = []"
  by (simp_all add: sample_world_def)

lemma parse_gala: "parse_args t gala_argv = Inr gala"
  by (simp add: parse_args_def gala_argv_def gala_def defaults_def TONES_def)

lemma parse_gala_dry: "parse_args t (gala_argv @ [DryRun]) = Inr (gala\<lparr>dry_run := True\<rparr>)"
  by (simp add: parse_args_def gala_argv_def gala_def defaults_def TONES_def)

lemma parse_bare:
  "parse_args t bare_argv =
     Inr ((defaults t)\<lparr>event := ustr ''Annual Gala'', output_path := ustr ''campaign.md''\<rparr>)"
  by (simp add: parse_args_def bare_argv_def defaults_def)

lemma extract_hello: "extract_content hello_body = Inr (JStr (ustr ''Hello''))"
  by (simp add: extract_content_def hello_body_def)

lemma no_error_hello: "py_contains (ustr ''error'') hello_body = Inr False"
  by (simp add: hello_body_def)

lemma chat_completion_hello:
  "chat_completion p m (eprint d (sample_world with_key (Response (reply 200 hello_body)))) =
     (Inr (JStr (ustr ''Hello'')),
      snd (chat_completion p m (eprint d (sample_world with_key (Response (reply 200 hello_body))))))"
  by (simp add: prod_eq_iff chat_completion_def handle_response_def Let_def with_key_def reply_def
      extract_hello no_error_hello)

lemma dirname_default: "dirname (ustr ''out/campaign.md'') = ustr ''out''"
  by (simp add: dirname_def path_head_def ustr_simps sep_def rstrip_char_def)

lemma makedirs_out:
  "makedirs (ustr ''out'') sample_fs =
     (None, sample_fs\<lparr>nodes := (nodes sample_fs)([ustr ''work'', ustr ''out''] \<mapsto> Dir)\<rparr>)"
  by (simp add: makedirs.simps makedirs_split_def path_split_def path_head_def path_tail_def
      mkdir_exist_ok_def mkdir_def resolve_def ustr_simps sep_def sample_fs_def node_at_def
      curdir_def pardir_def)

lemma open_write_default:
  "open_write (ustr ''out/campaign.md'') (ustr ''Hello'')
     (sample_fs\<lparr>nodes := (nodes sample_fs)([ustr ''work'', ustr ''out''] \<mapsto> Dir)\<rparr>) = Inr hello_fs"
  by (simp add: open_write_def resolve_def ustr_simps sep_def sample_fs_def node_at_def
      curdir_def pardir_def hello_fs_def)

section \<open>The prompt is a function of event, date and tone\<close>

text \<open>
  C7. \<open>build_prompt\<close> takes nothing but the parsed arguments, and of those it reads only the
  event name, the date and the tone: two namespaces that agree on these three give the
  same prompt, whatever their other fields are. The prompt contains the event name, the
  date and the tone as contiguous substrings.
\<close>

theorem build_prompt_pure:
  assumes "event a = event b" and "date a = date b" and "tone a = tone b"
  shows "build_prompt a = build_prompt b \<and> sublist (event a) (build_prompt a) \<and>
         sublist (date a) (build_prompt a) \<and> sublist (tone a) (build_prompt a)"
proof -
  have "build_prompt a = build_prompt b"
    using assms by (simp add: build_prompt_def)
  moreover have "sublist (event a) (build_prompt a)"
    unfolding build_prompt_def by (rule sublist_appendI)
  moreover have "sublist (date a) (build_prompt a)"
    unfolding build_prompt_def sublist_def by (metis append.assoc)
  moreover have "sublist (tone a) (build_prompt a)"
    unfolding build_prompt_def sublist_def by (metis append.assoc)
  ultimately show ?thesis by blast
qed

theorem build_prompt_pure_witness:
  "event gala = event (gala\<lparr>model := ustr ''other/model'', dry_run := True\<rparr>) \<and>
   date gala = date (gala\<lparr>model := ustr ''other/model'', dry_run := True\<rparr>) \<and>
   tone gala = tone (gala\<lparr>model := ustr ''other/model'', dry_run := True\<rparr>) \<and>
   build_prompt gala = build_prompt (gala\<lparr>model := ustr ''other/model'', dry_run := True\<rparr>) \<and>
   build_prompt gala =
     ustr ''Write five fundraising emails and four social captions for the Annual Gala on 2024-03-15 in a formal tone.'' \<and>
   sublist (ustr ''Annual Gala'') (build_prompt gala) \<and>
   sublist (ustr ''2024-03-15'') (build_prompt gala) \<and>
   sublist (ustr ''formal'') (build_prompt gala)"
  using build_prompt_pure [of gala "gala\<lparr>model := ustr ''other/model'', dry_run := True\<rparr>"]
  by (simp add: gala_def build_prompt_def ustr_def)

section \<open>Dry run\<close>

text \<open>
  C6. When the parsed arguments have the dry-run flag set, \<open>main\<close> prints four lines to
  standard output (a heading, a separator of fifty dashes, the prompt, the separator
  again) and returns, so the exit code is 0. No request is sent and the file system is
  left as it was; nothing is written to standard error either.
\<close>

theorem dry_run_prints_prompt_only:
  assumes "parse_args (today w) argv = Inr a" and "dry_run a"
  shows "fst (main argv w) = Returned \<and> exit_code (fst (main argv w)) = 0 \<and>
         stdout (snd (main argv w)) =
           stdout w @ [Print (10 # ustr ''Generated Prompt:''), Print separator,
                       Print (build_prompt a), Print separator] \<and>
         posts (snd (main argv w)) = posts w \<and> fs (snd (main argv w)) = fs w \<and>
         stderr (snd (main argv w)) = stderr w"
  using assms by (simp add: main_def)

theorem dry_run_prints_prompt_only_witness:
  "parse_args (today (sample_world Map.empty (RaisesRequestException []))) (gala_argv @ [DryRun])
     = Inr (gala\<lparr>dry_run := True\<rparr>) \<and>
   dry_run (gala\<lparr>dry_run := True\<rparr>) \<and>
   fst (main (gala_argv @ [DryRun]) (sample_world Map.empty (RaisesRequestException [])))
     = Returned \<and>
   exit_code (fst (main (gala_argv @ [DryRun])
     (sample_world Map.empty (RaisesRequestException [])))) = 0 \<and>
   stdout (snd (main (gala_argv @ [DryRun])
     (sample_world Map.empty (RaisesRequestException [])))) =
     [Print (10 # ustr ''Generated Prompt:''),
      Print (ustr ''--------------------------------------------------''),
      Print (ustr ''Write five fundraising emails and four social captions for the Annual Gala on 2024-03-15 in a formal tone.''),
      Print (ustr ''--------------------------------------------------'')] \<and>
   posts (snd (main (gala_argv @ [DryRun])
     (sample_world Map.empty (RaisesRequestException [])))) = [] \<and>
   fs (snd (main (gala_argv @ [DryRun])
     (sample_world Map.empty (RaisesRequestException [])))) = sample_fs"
  using dry_run_prints_prompt_only
    [of "sample_world Map.empty (RaisesRequestException [])" "gala_argv @ [DryRun]"
        "gala\<lparr>dry_run := True\<rparr>"]
  by (simp add: parse_gala_dry separator_eq build_prompt_def gala_def ustr_append)

text \<open>
  C10. The dry-run branch returns before \<open>chat_completion\<close>, the only reader of the
  credential, is called: with the dry-run flag set, replacing the environment by any other
  one, in particular one without the credential, changes nothing in the run. It returns
  with exit code 0 and writes nothing to standard error.
\<close>

theorem dry_run_ignores_credential:
  assumes "parse_args (today w) argv = Inr a" and "dry_run a"
  shows "main argv (w\<lparr>environ := env\<rparr>) = (Returned, (snd (main argv w))\<lparr>environ := env\<rparr>) \<and>
         exit_code (fst (main argv (w\<lparr>environ := env\<rparr>))) = 0 \<and>
         stderr (snd (main argv (w\<lparr>environ := env\<rparr>))) = stderr w"
  using assms by (simp add: main_def oprint_def)

theorem dry_run_ignores_credential_witness:
  "parse_args (today (sample_world [API_KEY \<mapsto> ustr ''sk-test''] (RaisesRequestException [])))
     (gala_argv @ [DryRun]) = Inr (gala\<lparr>dry_run := True\<rparr>) \<and>
   dry_run (gala\<lparr>dry_run := True\<rparr>) \<and>
   environ (sample_world [API_KEY \<mapsto> ustr ''sk-test''] (RaisesRequestException [])
              \<lparr>environ := Map.empty\<rparr>) API_KEY = None \<and>
   exit_code (fst (main (gala_argv @ [DryRun])
      (sample_world [API_KEY \<mapsto> ustr ''sk-test''] (RaisesRequestException [])
         \<lparr>environ := Map.empty\<rparr>))) = 0"
  using dry_run_ignores_credential
    [of "sample_world [API_KEY \<mapsto> ustr ''sk-test''] (RaisesRequestException [])"
        "gala_argv @ [DryRun]" "gala\<lparr>dry_run := True\<rparr>" Map.empty]
  by (simp add: parse_gala_dry)

section \<open>The credential\<close>

text \<open>
  C5. When the environment has no \<open>OPENROUTER_API_KEY\<close>, \<open>chat_completion\<close> ends the process
  through \<open>sys.exit\<close> with a message, hence exit code 1, and sends nothing. For the whole
  program: no request is sent whatever the command line is, and the run ends in the
  argument parser, in the dry-run branch, or with that fatal exit.
\<close>

theorem missing_credential_no_request:
  assumes "environ w API_KEY = None"
  shows "chat_completion prompt mdl w =
           (Inl (SysExit 1),
            eprint (ExitMessage
              (ustr ''Error: OPENROUTER_API_KEY environment variable is not set'')) w) \<and>
         posts (snd (chat_completion prompt mdl w)) = posts w \<and>
         posts (snd (main argv w)) = posts w \<and>
         fst (main argv w) =
           (case parse_args (today w) argv of
              Inl StopHelp \<Rightarrow> SysExit 0
            | Inl StopVersion \<Rightarrow> SysExit 0
            | Inl (StopError u) \<Rightarrow> SysExit 2
            | Inr a \<Rightarrow> if dry_run a then Returned else SysExit 1)"
proof -
  have cc: "chat_completion p m (eprint d w) = missing_key (eprint d w)" for p m d
    using assms by (simp add: chat_completion_def)
  have "chat_completion prompt mdl w = missing_key w"
    using assms by (simp add: chat_completion_def)
  moreover have "posts (snd (main argv w)) = posts w"
    using assms by (simp add: main_posts chat_completion_posts split: sum.split)
  moreover have "fst (main argv w) =
           (case parse_args (today w) argv of
              Inl StopHelp \<Rightarrow> SysExit 0
            | Inl StopVersion \<Rightarrow> SysExit 0
            | Inl (StopError u) \<Rightarrow> SysExit 2
            | Inr a \<Rightarrow> if dry_run a then Returned else SysExit 1)"
    by (simp add: main_def cc missing_key_def split: sum.split parse_stop.split)
  ultimately show ?thesis
    by (simp add: missing_key_def)
qed

theorem missing_credential_no_request_witness:
  "environ (sample_world Map.empty (RaisesRequestException [])) API_KEY = None \<and>
   fst (chat_completion (build_prompt gala) MODEL
          (sample_world Map.empty (RaisesRequestException []))) = Inl (SysExit 1) \<and>
   posts (snd (main gala_argv (sample_world Map.empty (RaisesRequestException [])))) = [] \<and>
   fst (main gala_argv (sample_world Map.empty (RaisesRequestException []))) = SysExit 1"
  using missing_credential_no_request
    [of "sample_world Map.empty (RaisesRequestException [])" "build_prompt gala" MODEL gala_argv]
  by (simp add: parse_gala gala_def)

section \<open>The request\<close>

text \<open>
  C9. A run that gets past the argument parser without the dry-run flag and finds a
  non-empty credential sends exactly one request. Its body is the JSON object with the
  four fields \<open>model\<close> (the model of the arguments), \<open>messages\<close> (a list of one object, with
  role \<open>user\<close> and the prompt as content), \<open>max_tokens\<close> (800) and \<open>temperature\<close> (0.7),
  and it goes to the fixed endpoint.
\<close>

theorem request_body:
  assumes "parse_args (today w) argv = Inr a" and "\<not> dry_run a"
    and "environ w API_KEY = Some key" and "key \<noteq> []"
  shows "posts (snd (main argv w)) = posts w @ [request key (build_prompt a) (model a)] \<and>
         url (request key (build_prompt a) (model a)) = ENDPOINT \<and>
         json_body (request key (build_prompt a) (model a)) =
           JObj [(ustr ''model'', JStr (model a)),
                 (ustr ''messages'',
                    JArr [JObj [(ustr ''role'', JStr (ustr ''user'')),
                                (ustr ''content'', JStr (build_prompt a))]]),
                 (ustr ''max_tokens'', JInt 800),
                 (ustr ''temperature'', JFloat (Finite (7 / 10)))]"
  using assms by (simp add: main_posts chat_completion_posts request_def payload_def)

theorem request_body_witness:
  "parse_args (today (sample_world [API_KEY \<mapsto> ustr ''sk-test''] (RaisesRequestException [])))
     gala_argv = Inr gala \<and>
   \<not> dry_run gala \<and>
   environ (sample_world [API_KEY \<mapsto> ustr ''sk-test''] (RaisesRequestException [])) API_KEY
     = Some (ustr ''sk-test'') \<and>
   ustr ''sk-test'' \<noteq> [] \<and>
   map json_body (posts (snd (main gala_argv
      (sample_world [API_KEY \<mapsto> ustr ''sk-test''] (RaisesRequestException []))))) =
     [JObj [(ustr ''model'', JStr (ustr ''google/palm-2-chat-bison'')),
            (ustr ''messages'',
               JArr [JObj [(ustr ''role'', JStr (ustr ''user'')),
                           (ustr ''content'', JStr (ustr ''Write five fundraising emails and four social captions for the Annual Gala on 2024-03-15 in a formal tone.''))]]),
            (ustr ''max_tokens'', JInt 800),
            (ustr ''temperature'', JFloat (Finite (7 / 10)))]]"
  using request_body
    [of "sample_world [API_KEY \<mapsto> ustr ''sk-test''] (RaisesRequestException [])" gala_argv gala
        "ustr ''sk-test''"]
  by (simp add: parse_gala gala_def MODEL_def build_prompt_def ustr_append ustr_simps)

section \<open>The checks on the response\<close>

text \<open>
  C2. Once the body of the response has been parsed, \<open>chat_completion\<close> tests it in this
  order. First the error field: when \<open>"error" in response_json\<close> holds the call is fatal
  (exit code 1) whatever the status code is, also 200, and whatever else the body holds;
  the last diagnostic is the API error message, or the unexpected-error report when
  \<open>response_json['error']['message']\<close> cannot be read. Then the status code: without an
  error field, a status other than 200 is fatal with the error-response diagnostic, also
  when the body has a usable \<open>choices\<close> list. Only then the content is extracted: with
  status 200 and no error field the call returns the content, or is fatal when a field is
  missing. A body on which the membership test itself raises is fatal before any of this.
  The diagnostics written to standard error are listed in full for each case.
\<close>

theorem checks_in_order:
  assumes "environ w API_KEY = Some key" and "key \<noteq> []"
    and "network w (request key prompt mdl) = Response r" and "parsed r = Json j"
  shows
    "(py_contains (ustr ''error'') j = Inr True \<longrightarrow>
        fst (chat_completion prompt mdl w) = Inl (SysExit 1) \<and>
        stderr (snd (chat_completion prompt mdl w)) =
          stderr w @ [Sending, UsingModel mdl, RequestPayload (payload prompt mdl),
                      StatusCode (status_code r), ResponseHeaders (resp_headers r)] @
          (case error_message j of
             Inr m \<Rightarrow> [ApiError m]
           | Inl e \<Rightarrow> [UnexpectedError e, ResponseText (body_text r)])) \<and>
     (py_contains (ustr ''error'') j = Inr False \<and> status_code r \<noteq> 200 \<longrightarrow>
        fst (chat_completion prompt mdl w) = Inl (SysExit 1) \<and>
        stderr (snd (chat_completion prompt mdl w)) =
          stderr w @ [Sending, UsingModel mdl, RequestPayload (payload prompt mdl),
                      StatusCode (status_code r), ResponseHeaders (resp_headers r),
                      ErrorResponse (body_text r)]) \<and>
     (py_contains (ustr ''error'') j = Inr False \<and> status_code r = 200 \<longrightarrow>
        fst (chat_completion prompt mdl w) =
          (case extract_content j of Inr c \<Rightarrow> Inr c | Inl e \<Rightarrow> Inl (SysExit 1)) \<and>
        stderr (snd (chat_completion prompt mdl w)) =
          stderr w @ [Sending, UsingModel mdl, RequestPayload (payload prompt mdl),
                      StatusCode (status_code r), ResponseHeaders (resp_headers r),
                      RequestCompleted, FullResponse j] @
          (case extract_content j of
             Inr c \<Rightarrow> []
           | Inl e \<Rightarrow>
               if e = KeyError \<or> e = IndexError then [FailedExtract e, ResponseStructure j]
               else [UnexpectedError e, ResponseText (body_text r)])) \<and>
     (\<forall>e. py_contains (ustr ''error'') j = Inl e \<longrightarrow>
        fst (chat_completion prompt mdl w) = Inl (SysExit 1) \<and>
        stderr (snd (chat_completion prompt mdl w)) =
          stderr w @ [Sending, UsingModel mdl, RequestPayload (payload prompt mdl),
                      StatusCode (status_code r), ResponseHeaders (resp_headers r),
                      UnexpectedError e, ResponseText (body_text r)])"
  using assms
  by (simp add: chat_completion_def handle_response_def unexpected_def Let_def split: sum.split)

theorem checks_in_order_witness:
  "environ (sample_world with_key (Response (reply 200 bad_key_body))) API_KEY = Some (ustr ''sk-test'') \<and>
   ustr ''sk-test'' \<noteq> [] \<and>
   network (sample_world with_key (Response (reply 200 bad_key_body)))
     (request (ustr ''sk-test'') (build_prompt gala) MODEL) = Response (reply 200 bad_key_body) \<and>
   parsed (reply 200 bad_key_body) = Json bad_key_body \<and>
   py_contains (ustr ''error'') bad_key_body = Inr True \<and>
   fst (chat_completion (build_prompt gala) MODEL
          (sample_world with_key (Response (reply 200 bad_key_body)))) = Inl (SysExit 1) \<and>
   last (stderr (snd (chat_completion (build_prompt gala) MODEL
          (sample_world with_key (Response (reply 200 bad_key_body)))))) =
     ApiError (JStr (ustr ''bad key'')) \<and>
   py_contains (ustr ''error'') hello_body = Inr False \<and>
   extract_content hello_body = Inr (JStr (ustr ''Hello'')) \<and>
   fst (chat_completion (build_prompt gala) MODEL
          (sample_world with_key (Response (reply 500 hello_body)))) = Inl (SysExit 1) \<and>
   last (stderr (snd (chat_completion (build_prompt gala) MODEL
          (sample_world with_key (Response (reply 500 hello_body)))))) =
     ErrorResponse (ustr ''(body)'') \<and>
   fst (chat_completion (build_prompt gala) MODEL
          (sample_world with_key (Response (reply 200 hello_body)))) = Inr (JStr (ustr ''Hello'')) \<and>
   py_contains (ustr ''error'') JNull = Inl TypeError \<and>
   fst (chat_completion (build_prompt gala) MODEL
          (sample_world with_key (Response (reply 500 JNull)))) = Inl (SysExit 1) \<and>
   last (stderr (snd (chat_completion (build_prompt gala) MODEL
          (sample_world with_key (Response (reply 500 JNull)))))) =
     ResponseText (ustr ''(body)'')"
  using
    checks_in_order [of "sample_world with_key (Response (reply 500 JNull))"
      "ustr ''sk-test''" "build_prompt gala" MODEL "reply 500 JNull" JNull]
    checks_in_order [of "sample_world with_key (Response (reply 200 bad_key_body))"
      "ustr ''sk-test''" "build_prompt gala" MODEL "reply 200 bad_key_body" bad_key_body]
    checks_in_order [of "sample_world with_key (Response (reply 500 hello_body))"
      "ustr ''sk-test''" "build_prompt gala" MODEL "reply 500 hello_body" hello_body]
    checks_in_order [of "sample_world with_key (Response (reply 200 hello_body))"
      "ustr ''sk-test''" "build_prompt gala" MODEL "reply 200 hello_body" hello_body]
  by (simp add: with_key_def reply_def extract_content_def error_message_def bad_key_body_def
      hello_body_def)

section \<open>An empty completion\<close>

text \<open>
  C3. When the completion call returns a string that is empty or consists of whitespace
  only, \<open>main\<close> ends with exit code 1. The empty-response diagnostic is the last thing
  written to standard error and the only occurrence of it in the run: no failure of the
  completion call itself writes it. The file system is as it was before the run, so no
  output file is written, and nothing is printed to standard output.
\<close>

theorem whitespace_response_rejected:
  assumes "parse_args (today w) argv = Inr a" and "\<not> dry_run a"
    and "chat_completion (build_prompt a) (model a) (eprint (Generating (event a)) w)
           = (Inr (JStr s), w1)"
    and "list_all isspace s"
  shows "main argv w = (SysExit 1, eprint EmptyResponse w1) \<and>
         exit_code (fst (main argv w)) = 1 \<and>
         fs (snd (main argv w)) = fs w \<and> stdout (snd (main argv w)) = stdout w \<and>
         (\<exists>ds. stderr (snd (main argv w)) = stderr w @ ds @ [EmptyResponse] \<and>
               EmptyResponse \<notin> set ds)"
proof -
  have m: "main argv w = (SysExit 1, eprint EmptyResponse w1)"
    using assms by (simp add: main_def empty_response_def strip_whitespace)
  have w1: "w1 = snd (chat_completion (build_prompt a) (model a) (eprint (Generating (event a)) w))"
    using assms(3) by simp
  obtain ds where ds: "stderr w1 = stderr (eprint (Generating (event a)) w) @ ds"
    "EmptyResponse \<notin> set ds"
    unfolding w1 using chat_completion_stderr by blast
  have "stderr (snd (main argv w)) = stderr w @ (Generating (event a) # ds) @ [EmptyResponse]"
    using m ds(1) by simp
  moreover have "EmptyResponse \<notin> set (Generating (event a) # ds)"
    using ds(2) by simp
  ultimately have "\<exists>ds. stderr (snd (main argv w)) = stderr w @ ds @ [EmptyResponse] \<and>
               EmptyResponse \<notin> set ds"
    by blast
  moreover have "fs w1 = fs w" "stdout w1 = stdout w"
    unfolding w1 by (simp_all add: chat_completion_frame)
  ultimately show ?thesis
    using m by simp
qed

theorem whitespace_response_rejected_witness:
  "parse_args (today (sample_world with_key (Response (reply 200 blank_body)))) gala_argv = Inr gala \<and>
   \<not> dry_run gala \<and>
   chat_completion (build_prompt gala) (model gala)
      (eprint (Generating (event gala)) (sample_world with_key (Response (reply 200 blank_body))))
     = (Inr (JStr (ustr ''   '')),
        snd (chat_completion (build_prompt gala) (model gala)
          (eprint (Generating (event gala))
             (sample_world with_key (Response (reply 200 blank_body)))))) \<and>
   list_all isspace (ustr ''   '') \<and>
   fst (main gala_argv (sample_world with_key (Response (reply 200 blank_body)))) = SysExit 1 \<and>
   last (stderr (snd (main gala_argv (sample_world with_key (Response (reply 200 blank_body))))))
     = EmptyResponse \<and>
   fs (snd (main gala_argv (sample_world with_key (Response (reply 200 blank_body))))) = sample_fs \<and>
   read_file (fs (snd (main gala_argv (sample_world with_key (Response (reply 200 blank_body))))))
     (output_path gala) = None"
proof -
  let ?w = "sample_world with_key (Response (reply 200 blank_body))"
  have p: "parse_args (today ?w) gala_argv = Inr gala"
    by (rule parse_gala)
  have nd: "\<not> dry_run gala"
    by (simp add: gala_def)
  have cc: "fst (chat_completion (build_prompt gala) (model gala)
      (eprint (Generating (event gala)) ?w)) = Inr (JStr (ustr ''   ''))"
    by (simp add: chat_completion_def handle_response_def Let_def with_key_def reply_def
        blank_body_def extract_content_def)
  have hyp: "chat_completion (build_prompt gala) (model gala) (eprint (Generating (event gala)) ?w)
     = (Inr (JStr (ustr ''   '')),
        snd (chat_completion (build_prompt gala) (model gala) (eprint (Generating (event gala)) ?w)))"
    using cc by (simp add: prod_eq_iff)
  note th = whitespace_response_rejected [OF p nd hyp isspace_blank]
  from th have m: "main gala_argv ?w =
      (SysExit 1, eprint EmptyResponse (snd (chat_completion (build_prompt gala) (model gala)
         (eprint (Generating (event gala)) ?w))))"
    by (rule conjunct1)
  have "fs (snd (main gala_argv ?w)) = fs ?w"
    by (rule conjunct1 [OF conjunct2 [OF conjunct2 [OF th]]])
  then have f: "fs (snd (main gala_argv ?w)) = sample_fs"
    by simp
  have e: "fst (main gala_argv ?w) = SysExit 1"
    by (simp add: m)
  have l: "last (stderr (snd (main gala_argv ?w))) = EmptyResponse"
    by (simp add: m)
  have rd: "read_file (fs (snd (main gala_argv ?w))) (output_path gala) = None"
    unfolding f
    by (simp add: read_file_def resolve_def gala_def sample_fs_def ustr_simps sep_def node_at_def
        curdir_def pardir_def)
  show ?thesis
    by (intro conjI p nd hyp isspace_blank e l f rd)
qed

section \<open>Writing the output file\<close>

text \<open>
  C1. Let the response have status 200 and the parsed body
  \<open>{"choices":[{"message":{"content":"Hello"}}]}\<close>, in a run that gets past the argument
  parser without the dry-run flag and finds a non-empty credential. Then the completion
  call returns \<open>"Hello"\<close>, and when creating the directory and opening the output path
  succeed, \<open>main\<close> returns normally and reading the output path back gives exactly
  \<open>"Hello"\<close>.
\<close>

theorem hello_response_written:
  assumes "parse_args (today w) argv = Inr a" and "\<not> dry_run a"
    and "environ w API_KEY = Some key" and "key \<noteq> []"
    and "network w (request key (build_prompt a) (model a)) = Response r"
    and "status_code r = 200" and "parsed r = Json hello_body"
    and "makedirs (dirname (output_path a)) (fs w) = (None, fs1)"
    and "open_write (output_path a) (ustr ''Hello'') fs1 = Inr fs2"
  shows "fst (chat_completion (build_prompt a) (model a) (eprint (Generating (event a)) w))
           = Inr (JStr (ustr ''Hello'')) \<and>
         fst (main argv w) = Returned \<and> fs (snd (main argv w)) = fs2 \<and>
         read_file (fs (snd (main argv w))) (output_path a) = Some (ustr ''Hello'')"
proof -
  let ?cc = "chat_completion (build_prompt a) (model a) (eprint (Generating (event a)) w)"
  have cc: "fst ?cc = Inr (JStr (ustr ''Hello''))"
    using assms(3-7)
    by (simp add: chat_completion_def handle_response_def Let_def extract_hello no_error_hello)
  then obtain w1 where w1: "?cc = (Inr (JStr (ustr ''Hello'')), w1)"
    by (cases ?cc) simp
  have "fs w1 = fs (snd ?cc)"
    by (simp add: w1)
  then have fs1: "fs w1 = fs w"
    by (simp add: chat_completion_frame)
  have st: "strip (ustr ''Hello'') \<noteq> []"
    by (simp add: strip_def ustr_simps isspace_def)
  have "main argv w = save_output a (ustr ''Hello'') w1"
    using assms(1,2) w1 st by (simp add: main_def)
  then have m: "fst (main argv w) = Returned \<and> fs (snd (main argv w)) = fs2"
    using assms(8,9) fs1 by (simp add: save_output_def Let_def)
  moreover have "read_file fs2 (output_path a) = Some (ustr ''Hello'')"
    using assms(9) by (rule read_after_write)
  ultimately show ?thesis
    using cc by simp
qed

theorem hello_response_written_witness:
  "parse_args (today (sample_world with_key (Response (reply 200 hello_body)))) gala_argv = Inr gala \<and>
   \<not> dry_run gala \<and>
   environ (sample_world with_key (Response (reply 200 hello_body))) API_KEY = Some (ustr ''sk-test'') \<and>
   ustr ''sk-test'' \<noteq> [] \<and>
   network (sample_world with_key (Response (reply 200 hello_body)))
     (request (ustr ''sk-test'') (build_prompt gala) (model gala)) = Response (reply 200 hello_body) \<and>
   status_code (reply 200 hello_body) = 200 \<and>
   parsed (reply 200 hello_body) = Json hello_body \<and>
   makedirs (dirname (output_path gala)) (fs (sample_world with_key (Response (reply 200 hello_body))))
     = (None, sample_fs\<lparr>nodes := (nodes sample_fs)([ustr ''work'', ustr ''out''] \<mapsto> Dir)\<rparr>) \<and>
   open_write (output_path gala) (ustr ''Hello'')
     (sample_fs\<lparr>nodes := (nodes sample_fs)([ustr ''work'', ustr ''out''] \<mapsto> Dir)\<rparr>) = Inr hello_fs \<and>
   fst (main gala_argv (sample_world with_key (Response (reply 200 hello_body)))) = Returned \<and>
   fs (snd (main gala_argv (sample_world with_key (Response (reply 200 hello_body))))) = hello_fs \<and>
   read_file (fs (snd (main gala_argv (sample_world with_key (Response (reply 200 hello_body))))))
     (ustr ''out/campaign.md'') = Some (ustr ''Hello'')"
proof -
  let ?w = "sample_world with_key (Response (reply 200 hello_body))"
  have p: "parse_args (today ?w) gala_argv = Inr gala"
    by (rule parse_gala)
  have nd: "\<not> dry_run gala"
    by (simp add: gala_def)
  have k: "environ ?w API_KEY = Some (ustr ''sk-test'')"
    by (simp add: with_key_def)
  have ne: "ustr ''sk-test'' \<noteq> []"
    by simp
  have n: "network ?w (request (ustr ''sk-test'') (build_prompt gala) (model gala))
             = Response (reply 200 hello_body)"
    by simp
  have s: "status_code (reply 200 hello_body) = 200"
    by (simp add: reply_def)
  have j: "parsed (reply 200 hello_body) = Json hello_body"
    by (simp add: reply_def)
  have out: "output_path gala = ustr ''out/campaign.md''"
    by (simp add: gala_def)
  have md: "makedirs (dirname (output_path gala)) (fs ?w)
     = (None, sample_fs\<lparr>nodes := (nodes sample_fs)([ustr ''work'', ustr ''out''] \<mapsto> Dir)\<rparr>)"
    by (simp add: out dirname_default makedirs_out)
  have ow: "open_write (output_path gala) (ustr ''Hello'')
     (sample_fs\<lparr>nodes := (nodes sample_fs)([ustr ''work'', ustr ''out''] \<mapsto> Dir)\<rparr>) = Inr hello_fs"
    by (simp add: out open_write_default)
  note th = hello_response_written [OF p nd k ne n s j md ow]
  have r: "fst (main gala_argv ?w) = Returned"
    by (rule conjunct1 [OF conjunct2 [OF th]])
  have f: "fs (snd (main gala_argv ?w)) = hello_fs"
    by (rule conjunct1 [OF conjunct2 [OF conjunct2 [OF th]]])
  have rd: "read_file (fs (snd (main gala_argv ?w))) (ustr ''out/campaign.md'') = Some (ustr ''Hello'')"
    using conjunct2 [OF conjunct2 [OF conjunct2 [OF th]]] by (simp add: out)
  show ?thesis
    by (intro conjI p nd k ne n s j md ow r f rd)
qed

text \<open>
  C4. The claim is that the parent directory of the output path is created and the file
  written, also when the output path has no directory component. The program does not do
  that: for \<open>--output campaign.md\<close> the directory name is the empty string, on which
  \<open>os.makedirs\<close> raises \<open>FileNotFoundError\<close>. With a credential and the response
  \<open>{"choices":[{"message":{"content":"Hello"}}]}\<close> the run ends with that uncaught
  exception, the file system is unchanged and the output file does not exist.
\<close>

theorem bare_filename_not_written:
  "fst (main bare_argv (sample_world with_key (Response (reply 200 hello_body))))
     = Uncaught (OSError ENOENT) \<and>
   exit_code (fst (main bare_argv (sample_world with_key (Response (reply 200 hello_body))))) = 1 \<and>
   last (stderr (snd (main bare_argv (sample_world with_key (Response (reply 200 hello_body))))))
     = Traceback (OSError ENOENT) \<and>
   fs (snd (main bare_argv (sample_world with_key (Response (reply 200 hello_body))))) = sample_fs \<and>
   read_file (fs (snd (main bare_argv (sample_world with_key (Response (reply 200 hello_body))))))
     (ustr ''campaign.md'') = None"
proof -
  let ?w = "sample_world with_key (Response (reply 200 hello_body))"
  let ?a = "(defaults (today ?w))\<lparr>event := ustr ''Annual Gala'', output_path := ustr ''campaign.md''\<rparr>"
  let ?w1 = "snd (chat_completion (build_prompt ?a) (model ?a) (eprint (Generating (event ?a)) ?w))"
  have nosep: "sep \<notin> set (output_path ?a)"
    by (simp add: ustr_simps sep_def)
  have "main bare_argv ?w = save_output ?a (ustr ''Hello'') ?w1"
    unfolding main_def parse_bare
    by (subst chat_completion_hello) (simp add: defaults_def strip_hello)
  then have m: "main bare_argv ?w = uncaught (OSError ENOENT) ?w1"
    by (simp only: save_output_bare_filename [OF nosep])
  have "read_file sample_fs (ustr ''campaign.md'') = None"
    by (simp add: read_file_def resolve_def ustr_simps sep_def sample_fs_def node_at_def
        curdir_def pardir_def)
  then show ?thesis
    by (simp add: m chat_completion_frame)
qed

section \<open>Argument errors\<close>




end
